theory Spec2Isabelle
  imports Main "HOL-Library.Char_ord" "HOL-Library.List_Lexorder"
begin

section \<open>Strings, payloads and child processes\<close>

text \<open>
  The four scripts of the repository share their vocabulary: file names are strings,
  a push notification is a JSON payload with a \<open>filename\<close> field, and the work is done by
  child processes (\<open>aplay\<close>, \<open>scp\<close>, \<open>rsync\<close>) whose end the script observes through the
  \<open>close\<close> and \<open>error\<close> events. A child killed by a signal reports the code \<open>null\<close>, which
  takes the same branches as any code outside 0, 23, 24 and 255; it is not modelled apart.
  A child that cannot be started emits \<open>error\<close> and then \<open>close\<close> with a negative code
  (\<open>-2\<close> for a missing program, which stands for all of them: every such code takes the
  same branches); \<open>AplayError\<close>, \<open>ScpError\<close> and \<open>RsyncError\<close> are this pair of events,
  the second following the first at once.
\<close>

definition endsWith :: "string \<Rightarrow> string \<Rightarrow> bool" where
  "endsWith s suf = (length suf \<le> length s \<and> drop (length s - length suf) s = suf)"

fun str_includes :: "string \<Rightarrow> string \<Rightarrow> bool" where
  "str_includes [] sub = (sub = [])"
| "str_includes (c # cs) sub = (take (length sub) (c # cs) = sub \<or> str_includes cs sub)"

text \<open>
  \<open>Array.prototype.shift\<close>: the first element and the rest; on an empty array
  \<open>undefined\<close> (\<open>None\<close>), and the array stays empty.
\<close>

definition shift :: "'a list \<Rightarrow> 'a option \<times> 'a list" where
  "shift q = (case q of [] \<Rightarrow> (None, []) | x # xs \<Rightarrow> (Some x, xs))"

text \<open>
  The value of \<open>data.filename\<close> after \<open>JSON.parse\<close>: missing (\<open>undefined\<close>), a string, some
  other falsy value (\<open>null\<close>, \<open>false\<close>, \<open>0\<close>) or some other truthy value (on which
  \<open>.endsWith\<close> is not a function, so the call throws). \<open>Unparsable\<close> is a payload on which
  \<open>JSON.parse\<close> throws, \<open>NullData\<close> the payload \<open>null\<close>, on which the field access throws.
  A payload that is a number, a string or a boolean has no \<open>filename\<close>: it is
  \<open>Parsed Missing\<close>.
\<close>

datatype field = Missing | Str string | Falsy | Truthy

datatype message = Unparsable | NullData | Parsed field

datatype aplay_end = AplayClose int | AplayError

datatype scp_end = ScpClose int string | ScpError

datatype rsync_end = RsyncClose int string | RsyncError

text \<open>The lines the scripts print, one constructor per message.\<close>

datatype line =
    IncomingData
  | SkippingPlayed string
  | SkippingQueued string
  | AddedToQueue string nat
  | Syncing string
  | SyncedOk string
  | SyncFailed string
  | ScpConnectionIssue string
  | ScpRetry string nat nat
  | ScpSpawnRetry string nat nat
  | MessageError
  | Playing string
  | Finished string
  | AplayExited int string
  | ErrorPlaying string
  | NotFoundLocally string
  | IdleExit
  | Interrupted
  | ReaddirError
  | SyncConnectionIssue
  | SyncWarning int
  | SyncSpawnError
  | InitialSyncComplete
  | InitialSyncFailed
  | SyncCriticalError

section \<open>State shared by the scripts\<close>

text \<open>
  The module-level variables \<open>playedFiles\<close>, \<open>isPlaying\<close> and \<open>idleTimer\<close>, together with
  what the Node runtime holds for the script: the pending timeouts (\<open>timers\<close>, with the
  next fresh handle \<open>timerSeq\<close>), the running \<open>aplay\<close> children (\<open>aplays\<close>, each with the
  file of the suspended call that awaits it), the console, and the exit code once
  \<open>process.exit\<close> has run.
\<close>

record runtime =
  playedFiles :: "string set"
  isPlaying :: bool
  idleTimer :: "nat option"
  timers :: "nat list"
  timerSeq :: nat
  aplays :: "string list"
  console :: "line list"
  exitCode :: "int option"

definition say :: "line list \<Rightarrow> 'a runtime_scheme \<Rightarrow> 'a runtime_scheme" where
  "say ls s = s\<lparr>console := console s @ ls\<rparr>"

text \<open>\<open>idleTimer = setTimeout(..., IDLE_TIMEOUT)\<close>\<close>

definition setIdleTimer :: "'a runtime_scheme \<Rightarrow> 'a runtime_scheme" where
  "setIdleTimer s =
     s\<lparr>idleTimer := Some (timerSeq s), timers := timers s @ [timerSeq s],
       timerSeq := Suc (timerSeq s)\<rparr>"

definition clearTimeout :: "nat \<Rightarrow> 'a runtime_scheme \<Rightarrow> 'a runtime_scheme" where
  "clearTimeout h s = s\<lparr>timers := removeAll h (timers s)\<rparr>"

text \<open>\<open>if (idleTimer) { clearTimeout(idleTimer); idleTimer = null; }\<close>\<close>

definition clearIdleTimer :: "'a runtime_scheme \<Rightarrow> 'a runtime_scheme" where
  "clearIdleTimer s =
     (case idleTimer s of
        None \<Rightarrow> s
      | Some h \<Rightarrow> (clearTimeout h s)\<lparr>idleTimer := None\<rparr>)"

text \<open>\<open>playFile\<close>, up to the spawn: it prints and starts the child.\<close>

definition playFile_start :: "string \<Rightarrow> 'a runtime_scheme \<Rightarrow> 'a runtime_scheme" where
  "playFile_start f s = s\<lparr>console := console s @ [Playing f], aplays := aplays s @ [f]\<rparr>"

text \<open>
  \<open>playFile\<close>, the handlers of the child's end: whether the promise resolves, what is
  printed until it settles, and what is printed after that. When \<open>aplay\<close> cannot be
  started the \<open>error\<close> handler prints and rejects; the \<open>close\<close> handler then prints the
  code and its \<open>reject\<close> has no effect.
\<close>

definition playFile_end :: "string \<Rightarrow> aplay_end \<Rightarrow> bool \<times> line list \<times> line list" where
  "playFile_end f e =
     (case e of
        AplayClose code \<Rightarrow>
          if code = 0 then (True, [Finished f], []) else (False, [AplayExited code f], [])
      | AplayError \<Rightarrow> (False, [ErrorPlaying f], [AplayExited (- 2) f]))"

text \<open>
  The continuation of \<open>await playFile(nextFile)\<close> in \<open>processQueue\<close> and \<open>processFiles\<close>:
  \<open>try { ...; playedFiles.add(nextFile) } catch { console.error; playedFiles.add(nextFile) }
  finally { isPlaying = false }\<close>.
\<close>

definition played :: "string \<Rightarrow> aplay_end \<Rightarrow> 'a runtime_scheme \<Rightarrow> 'a runtime_scheme" where
  "played f e s =
     (case playFile_end f e of
        (True, ls, late) \<Rightarrow>
          s\<lparr>aplays := remove1 f (aplays s), console := console s @ ls @ late,
            playedFiles := insert f (playedFiles s), isPlaying := False\<rparr>
      | (False, ls, late) \<Rightarrow>
          s\<lparr>aplays := remove1 f (aplays s),
            console := console s @ ls @ [ErrorPlaying f] @ late,
            playedFiles := insert f (playedFiles s), isPlaying := False\<rparr>)"

section \<open>sync_and_play_nats.js: the push-mode coordinator\<close>

text \<open>
  \<open>playQueue\<close> with the values its \<open>shift()\<close> calls have returned so far (\<open>shifted\<close>), and
  the running \<open>scp\<close> children (\<open>scps\<close>).
\<close>

record nats = runtime +
  playQueue :: "string list"
  shifted :: "string option list"
  scps :: "string list"

datatype nats_event =
    Message message "string set"
  | Tick "string set"
  | PlayEnds string aplay_end
  | SyncEnds string scp_end
  | TimerFires nat
  | Sigint

definition init_nats :: nats where
  "init_nats =
     \<lparr>playedFiles = {}, isPlaying = False, idleTimer = None, timers = [], timerSeq = 0,
      aplays = [], console = [], exitCode = None, playQueue = [], shifted = [], scps = []\<rparr>"

text \<open>\<open>playQueue.shift()\<close>\<close>

definition shiftQueue :: "'a nats_scheme \<Rightarrow> 'a nats_scheme" where
  "shiftQueue s =
     s\<lparr>playQueue := snd (shift (playQueue s)),
       shifted := shifted s @ [fst (shift (playQueue s))]\<rparr>"

definition isConnectionError_nats :: "int \<Rightarrow> string \<Rightarrow> bool" where
  "isConnectionError_nats code stderr =
     (str_includes stderr ''Connection refused'' \<or>
      str_includes stderr ''Connection timed out'' \<or>
      str_includes stderr ''Network is unreachable'' \<or>
      str_includes stderr ''Connection closed'' \<or>
      code = 255)"

text \<open>\<open>syncFile\<close>, up to the spawn of \<open>scp\<close>.\<close>

definition syncFile_start :: "string \<Rightarrow> 'a nats_scheme \<Rightarrow> 'a nats_scheme" where
  "syncFile_start f s = s\<lparr>scps := scps s @ [f]\<rparr>"

text \<open>
  \<open>syncFile\<close>, the handlers of the child's end: resolved or rejected, and the warning.
  When \<open>scp\<close> cannot be started the \<open>error\<close> handler rejects, and the \<open>close\<close> handler that
  follows (code \<open>-2\<close>, nothing on \<open>stderr\<close>) prints nothing.
\<close>

definition syncFile_end_nats :: "string \<Rightarrow> scp_end \<Rightarrow> bool \<times> line list" where
  "syncFile_end_nats f e =
     (case e of
        ScpClose code stderr \<Rightarrow>
          if code = 0 then (True, [])
          else if isConnectionError_nats code stderr then (False, [ScpConnectionIssue f])
          else (False, [])
      | ScpError \<Rightarrow> (False, []))"

text \<open>
  The continuation of a \<open>syncFile\<close> promise: both the awaited call of \<open>processQueue\<close> and
  the call of the message handler only print.
\<close>

definition synced_nats :: "string \<Rightarrow> scp_end \<Rightarrow> nats \<Rightarrow> nats" where
  "synced_nats f e s =
     (case syncFile_end_nats f e of
        (True, ls) \<Rightarrow> s\<lparr>scps := remove1 f (scps s), console := console s @ ls @ [SyncedOk f]\<rparr>
      | (False, ls) \<Rightarrow>
          s\<lparr>scps := remove1 f (scps s), console := console s @ ls @ [SyncFailed f]\<rparr>)"

text \<open>
  The body of the \<open>for await (const msg of sub)\<close> loop of \<open>main\<close>; \<open>fs\<close> is the set of names
  for which \<open>fs.existsSync\<close> answers true at that moment.
\<close>

definition onMessage_nats :: "message \<Rightarrow> string set \<Rightarrow> nats \<Rightarrow> nats" where
  "onMessage_nats m fs s =
     (case m of
        Unparsable \<Rightarrow> say [MessageError] s
      | NullData \<Rightarrow> say [IncomingData, MessageError] s
      | Parsed Missing \<Rightarrow> say [IncomingData] s
      | Parsed Falsy \<Rightarrow> say [IncomingData] s
      | Parsed Truthy \<Rightarrow> say [IncomingData, MessageError] s
      | Parsed (Str filename) \<Rightarrow>
          if filename \<noteq> [] \<and> endsWith filename ''.wav'' then
            if filename \<in> playedFiles s then say [IncomingData, SkippingPlayed filename] s
            else if filename \<in> set (playQueue s) then
              say [IncomingData, SkippingQueued filename] s
            else
              let s1 = say [IncomingData] s;
                  s2 = s1\<lparr>playQueue := playQueue s1 @ [filename]\<rparr>;
                  s3 = say [AddedToQueue filename (length (playQueue s2))] s2;
                  s4 = clearIdleTimer s3
              in if filename \<notin> fs then syncFile_start filename (say [Syncing filename] s4)
                 else s4
          else say [IncomingData] s)"

text \<open>\<open>processQueue\<close>, up to its first \<open>await\<close>.\<close>

definition processQueue_nats :: "string set \<Rightarrow> nats \<Rightarrow> nats" where
  "processQueue_nats fs s =
     (if playQueue s = [] \<and> \<not> isPlaying s then
        (if idleTimer s = None then setIdleTimer s else s)
      else if playQueue s \<noteq> [] \<and> \<not> isPlaying s then
        (let nextFile = hd (playQueue s) in
         if nextFile \<in> fs then
           playFile_start nextFile ((shiftQueue s)\<lparr>isPlaying := True\<rparr>)
         else syncFile_start nextFile (say [NotFoundLocally nextFile] s))
      else s)"

text \<open>
  The callback of the idle timer \<open>h\<close>, which is then no longer pending, and the \<open>SIGINT\<close>
  handler, which clears the timeout and leaves \<open>idleTimer\<close> as it is. Both end with
  \<open>process.exit(0)\<close>; where the handler first awaits \<open>natsClient.close()\<close>, the wait is
  taken to be over at once.
\<close>

definition idleTimeout :: "nat \<Rightarrow> 'a runtime_scheme \<Rightarrow> 'a runtime_scheme" where
  "idleTimeout h s =
     s\<lparr>timers := removeAll h (timers s), console := console s @ [IdleExit],
       exitCode := Some 0\<rparr>"

definition sigint :: "'a runtime_scheme \<Rightarrow> 'a runtime_scheme" where
  "sigint s =
     (case idleTimer s of
        None \<Rightarrow> (say [Interrupted] s)\<lparr>exitCode := Some 0\<rparr>
      | Some h \<Rightarrow> (clearTimeout h (say [Interrupted] s))\<lparr>exitCode := Some 0\<rparr>)"

text \<open>
  One turn of the event loop. An event that cannot happen in the state (the end of a
  child that is not running, a timeout that is not pending, anything after
  \<open>process.exit\<close>) leaves the state as it is.
\<close>

definition step_nats :: "nats \<Rightarrow> nats_event \<Rightarrow> nats" where
  "step_nats s ev =
     (if exitCode s \<noteq> None then s
      else case ev of
        Message m fs \<Rightarrow> onMessage_nats m fs s
      | Tick fs \<Rightarrow> processQueue_nats fs s
      | PlayEnds f e \<Rightarrow> if f \<in> set (aplays s) then played f e s else s
      | SyncEnds f e \<Rightarrow> if f \<in> set (scps s) then synced_nats f e s else s
      | TimerFires h \<Rightarrow> if h \<in> set (timers s) then idleTimeout h s else s
      | Sigint \<Rightarrow> sigint s)"

definition run_nats :: "nats_event list \<Rightarrow> nats" where
  "run_nats evs = foldl step_nats init_nats evs"

text \<open>What the console says was queued, and what it says was played, in order.\<close>

fun queued_of :: "line list \<Rightarrow> string list" where
  "queued_of [] = []"
| "queued_of (AddedToQueue f n # ls) = f # queued_of ls"
| "queued_of (l # ls) = queued_of ls"

fun playing_of :: "line list \<Rightarrow> string list" where
  "playing_of [] = []"
| "playing_of (Playing f # ls) = f # playing_of ls"
| "playing_of (l # ls) = playing_of ls"


section \<open>The sequential push-mode coordinator (the second script of part_001)\<close>

text \<open>
  This variant adds \<open>isSyncing\<close> and \<open>lastSyncTime\<close>, retries inside \<open>syncFile\<close>, and starts
  \<open>processQueue\<close> through \<open>setImmediate\<close> when the first file is queued (\<open>immediates\<close>
  counts the calls scheduled and not yet run).
\<close>

definition SYNC_DELAY :: int where "SYNC_DELAY = 1000"

definition MAX_SYNC_RETRIES :: nat where "MAX_SYNC_RETRIES = 3"

definition RETRY_DELAY :: nat where "RETRY_DELAY = 2000"

definition isConnectionError_seq :: "int \<Rightarrow> string \<Rightarrow> bool" where
  "isConnectionError_seq code stderr =
     (str_includes stderr ''Connection refused'' \<or>
      str_includes stderr ''Connection timed out'' \<or>
      str_includes stderr ''Network is unreachable'' \<or>
      str_includes stderr ''Connection closed'' \<or>
      str_includes stderr ''Connection reset'' \<or>
      code = 255)"

text \<open>An end of \<open>scp\<close> that the \<open>close\<close> handler takes for a connection error.\<close>

definition transient :: "scp_end \<Rightarrow> bool" where
  "transient e =
     (case e of
        ScpClose code stderr \<Rightarrow> code \<noteq> 0 \<and> isConnectionError_seq code stderr
      | ScpError \<Rightarrow> False)"

text \<open>
  What one call of \<open>syncFile\<close> does until its promise settles: \<open>settled\<close> is \<open>None\<close> while it
  is pending, \<open>Some True\<close> once resolved and \<open>Some False\<close> once rejected; \<open>backoffs\<close> are the
  delays of the retry timeouts in the order they were set, \<open>throttles\<close> the values of
  \<open>delayNeeded\<close> of the calls made, \<open>finishedAt\<close> the time of the last event of the call,
  \<open>lastSync\<close> the value of \<open>lastSyncTime\<close> afterwards, \<open>printed\<close> its console lines. \<open>stray\<close>
  is the \<open>retryCount\<close> of a retry whose timeout is pending when the promise settles: the
  call \<open>syncFile(filename, stray)\<close> will be made, and nothing waits for its promise.
\<close>

record sync_run =
  settled :: "bool option"
  backoffs :: "nat list"
  throttles :: "int list"
  finishedAt :: int
  lastSync :: int
  printed :: "line list"
  stray :: "nat option"

text \<open>
  The pieces of \<open>syncFile(filename, retryCount)\<close>, called at time \<open>now\<close> (milliseconds,
  \<open>Date.now()\<close>) with \<open>lastSyncTime = lastSynced\<close>: the wait before \<open>doSync\<close>, the time
  at which an \<open>scp\<close> child that runs for \<open>d\<close> milliseconds ends, the delay of the retry
  timeout and the time at which it fires (timeouts fire exactly after their delay, and
  \<open>lastSyncTime\<close> is taken not to change while the call is pending).
\<close>

definition delayNeeded :: "int \<Rightarrow> int \<Rightarrow> int" where
  "delayNeeded now lastSynced = max 0 (SYNC_DELAY - (now - lastSynced))"

definition closedAt :: "int \<Rightarrow> int \<Rightarrow> nat \<Rightarrow> int" where
  "closedAt now lastSynced d = now + delayNeeded now lastSynced + int d"

definition retryDelay :: "nat \<Rightarrow> nat" where
  "retryDelay retryCount = RETRY_DELAY * 2 ^ retryCount"

definition retryAt :: "nat \<Rightarrow> int \<Rightarrow> int \<Rightarrow> nat \<Rightarrow> int" where
  "retryAt retryCount now lastSynced d = closedAt now lastSynced d + int (retryDelay retryCount)"

text \<open>The call while its child runs, resolved, and rejected.\<close>

definition pending :: "int \<Rightarrow> int \<Rightarrow> sync_run" where
  "pending now lastSynced =
     \<lparr>settled = None, backoffs = [], throttles = [delayNeeded now lastSynced],
      finishedAt = now + delayNeeded now lastSynced, lastSync = lastSynced, printed = [],
      stray = None\<rparr>"

definition resolved :: "string \<Rightarrow> int \<Rightarrow> int \<Rightarrow> nat \<Rightarrow> sync_run" where
  "resolved filename now lastSynced d =
     \<lparr>settled = Some True, backoffs = [], throttles = [delayNeeded now lastSynced],
      finishedAt = closedAt now lastSynced d, lastSync = closedAt now lastSynced d,
      printed = [SyncedOk filename], stray = None\<rparr>"

definition rejected :: "int \<Rightarrow> int \<Rightarrow> nat \<Rightarrow> sync_run" where
  "rejected now lastSynced d =
     \<lparr>settled = Some False, backoffs = [], throttles = [delayNeeded now lastSynced],
      finishedAt = closedAt now lastSynced d, lastSync = lastSynced, printed = [],
      stray = None\<rparr>"

text \<open>
  The retry after a connection error: the warning is printed, the timeout is set, and
  the promise settles as the promise of the call made by the timeout (\<open>retry\<close>) does.
\<close>

definition retried :: "line \<Rightarrow> nat \<Rightarrow> int \<Rightarrow> int \<Rightarrow> sync_run \<Rightarrow> sync_run" where
  "retried warning retryCount now lastSynced retry =
     retry\<lparr>backoffs := retryDelay retryCount # backoffs retry,
           throttles := delayNeeded now lastSynced # throttles retry,
           printed := warning # printed retry\<rparr>"

text \<open>
  \<open>scp\<close> cannot be started, with \<open>retryCount < MAX_SYNC_RETRIES\<close>: the \<open>error\<close> handler
  prints the warning and sets the retry timeout; the \<open>close\<close> handler that follows sees
  the code \<open>-2\<close> and nothing on \<open>stderr\<close>, which is no connection error, and rejects the
  promise. The timeout stays pending: its call is the stray of the run.
\<close>

definition spawn_failed :: "string \<Rightarrow> nat \<Rightarrow> int \<Rightarrow> int \<Rightarrow> nat \<Rightarrow> sync_run" where
  "spawn_failed filename retryCount now lastSynced d =
     \<lparr>settled = Some False, backoffs = [retryDelay retryCount],
      throttles = [delayNeeded now lastSynced], finishedAt = closedAt now lastSynced d,
      lastSync = lastSynced,
      printed = [ScpSpawnRetry filename (retryCount + 1) (retryDelay retryCount)],
      stray = Some (retryCount + 1)\<rparr>"

text \<open>
  \<open>syncFile(filename, retryCount)\<close>. The list gives, for each \<open>scp\<close> child the call and
  its retries start, how long the child runs and how it ends; when the list runs out
  the child never ends and the promise stays pending.
\<close>

fun syncFile_seq ::
  "string \<Rightarrow> nat \<Rightarrow> int \<Rightarrow> int \<Rightarrow> (nat \<times> scp_end) list \<Rightarrow> sync_run" where
  "syncFile_seq filename retryCount lastSynced now [] = pending now lastSynced"
| "syncFile_seq filename retryCount lastSynced now ((d, e) # rest) =
     (case e of
        ScpClose code stderr \<Rightarrow>
          if code = 0 then resolved filename now lastSynced d
          else if isConnectionError_seq code stderr \<and> retryCount < MAX_SYNC_RETRIES then
            retried (ScpRetry filename (retryCount + 1) (retryDelay retryCount))
              retryCount now lastSynced
              (syncFile_seq filename (retryCount + 1) lastSynced
                 (retryAt retryCount now lastSynced d) rest)
          else rejected now lastSynced d
      | ScpError \<Rightarrow>
          if retryCount < MAX_SYNC_RETRIES then
            spawn_failed filename retryCount now lastSynced d
          else rejected now lastSynced d)"

text \<open>
  \<open>strays\<close> are the retries that a failed spawn has left behind: for each, a timeout is
  pending or an \<open>scp\<close> child is running, and no promise of it is awaited.
\<close>

record seq = nats +
  isSyncing :: bool
  lastSyncTime :: int
  immediates :: nat
  strays :: "(string \<times> nat) list"

datatype seq_event =
    Message_seq message
  | Tick_seq "string set"
  | Immediate_seq "string set"
  | PlayEnds_seq string aplay_end "string set"
  | SyncSettles_seq string int "(nat \<times> scp_end) list"
  | StraySettles_seq string nat int "(nat \<times> scp_end) list"
  | TimerFires_seq nat
  | Sigint_seq

definition init_seq :: seq where
  "init_seq =
     \<lparr>playedFiles = {}, isPlaying = False, idleTimer = None, timers = [], timerSeq = 0,
      aplays = [], console = [], exitCode = None, playQueue = [], shifted = [], scps = [],
      isSyncing = False, lastSyncTime = 0, immediates = 0, strays = []\<rparr>"

text \<open>The body of the message loop of \<open>main\<close>.\<close>

definition onMessage_seq :: "message \<Rightarrow> seq \<Rightarrow> seq" where
  "onMessage_seq m s =
     (case m of
        Unparsable \<Rightarrow> say [MessageError] s
      | NullData \<Rightarrow> say [IncomingData, MessageError] s
      | Parsed Missing \<Rightarrow> say [IncomingData] s
      | Parsed Falsy \<Rightarrow> say [IncomingData] s
      | Parsed Truthy \<Rightarrow> say [IncomingData, MessageError] s
      | Parsed (Str filename) \<Rightarrow>
          if filename \<noteq> [] \<and> endsWith filename ''.wav'' then
            if filename \<in> playedFiles s then say [IncomingData, SkippingPlayed filename] s
            else if filename \<in> set (playQueue s) then
              say [IncomingData, SkippingQueued filename] s
            else
              let s1 = say [IncomingData] s;
                  s2 = s1\<lparr>playQueue := playQueue s1 @ [filename]\<rparr>;
                  s3 = say [AddedToQueue filename (length (playQueue s2))] s2;
                  s4 = clearIdleTimer s3
              in if length (playQueue s4) = 1 \<and> \<not> isPlaying s4 \<and> \<not> isSyncing s4 then
                   s4\<lparr>immediates := Suc (immediates s4)\<rparr>
                 else s4
          else say [IncomingData] s)"

text \<open>\<open>processQueue\<close>, up to its first \<open>await\<close>.\<close>

definition processQueue_seq :: "string set \<Rightarrow> seq \<Rightarrow> seq" where
  "processQueue_seq fs s =
     (if playQueue s = [] \<and> \<not> isPlaying s \<and> \<not> isSyncing s then
        (if idleTimer s = None then setIdleTimer s else s)
      else if isPlaying s \<or> isSyncing s then s
      else if playQueue s = [] then s
      else
        (let nextFile = hd (playQueue s) in
         if nextFile \<in> fs then
           playFile_start nextFile ((shiftQueue s)\<lparr>isPlaying := True\<rparr>)
         else syncFile_start nextFile (s\<lparr>isSyncing := True\<rparr>)))"

text \<open>
  The continuation of \<open>await playFile(nextFile)\<close>, with the \<open>finally\<close> block that looks
  at the next file of the queue and starts its transfer when it is not there yet.
\<close>

definition played_seq :: "string \<Rightarrow> aplay_end \<Rightarrow> string set \<Rightarrow> seq \<Rightarrow> seq" where
  "played_seq f e fs s =
     (let s1 = played f e s in
      if playQueue s1 \<noteq> [] then
        (let nextNextFile = hd (playQueue s1) in
         if nextNextFile \<notin> fs then syncFile_start nextNextFile (s1\<lparr>isSyncing := True\<rparr>)
         else s1)
      else s1)"

text \<open>The stray that a run leaves behind, if any.\<close>

definition left_behind :: "string \<Rightarrow> sync_run \<Rightarrow> (string \<times> nat) list" where
  "left_behind f r = (case stray r of None \<Rightarrow> [] | Some k \<Rightarrow> [(f, k)])"

text \<open>
  The continuation of \<open>await syncFile(...)\<close>, the same at both places of \<open>processQueue\<close>:
  \<open>catch { console.error } finally { isSyncing = false }\<close>. The queue is not touched.
\<close>

definition synced_seq :: "string \<Rightarrow> int \<Rightarrow> (nat \<times> scp_end) list \<Rightarrow> seq \<Rightarrow> seq" where
  "synced_seq f now attempts s =
     (let r = syncFile_seq f 0 (lastSyncTime s) now attempts in
      case settled r of
        None \<Rightarrow> s
      | Some True \<Rightarrow>
          s\<lparr>scps := remove1 f (scps s), console := console s @ printed r,
            lastSyncTime := lastSync r, isSyncing := False,
            strays := strays s @ left_behind f r\<rparr>
      | Some False \<Rightarrow>
          s\<lparr>scps := remove1 f (scps s), console := console s @ printed r @ [SyncFailed f],
            lastSyncTime := lastSync r, isSyncing := False,
            strays := strays s @ left_behind f r\<rparr>)"

text \<open>
  A stray retry runs: the timeout fires at time \<open>now\<close> and calls
  \<open>syncFile(f, retryCount)\<close>, whose promise settles with nobody waiting for it.
\<close>

definition strayed_seq :: "string \<Rightarrow> nat \<Rightarrow> int \<Rightarrow> (nat \<times> scp_end) list \<Rightarrow> seq \<Rightarrow> seq" where
  "strayed_seq f retryCount now attempts s =
     (let r = syncFile_seq f retryCount (lastSyncTime s) now attempts in
      case settled r of
        None \<Rightarrow> s
      | Some ok \<Rightarrow>
          s\<lparr>console := console s @ printed r, lastSyncTime := lastSync r,
            strays := remove1 (f, retryCount) (strays s) @ left_behind f r\<rparr>)"

definition step_seq :: "seq \<Rightarrow> seq_event \<Rightarrow> seq" where
  "step_seq s ev =
     (if exitCode s \<noteq> None then s
      else case ev of
        Message_seq m \<Rightarrow> onMessage_seq m s
      | Tick_seq fs \<Rightarrow> processQueue_seq fs s
      | Immediate_seq fs \<Rightarrow>
          if 0 < immediates s then processQueue_seq fs (s\<lparr>immediates := immediates s - 1\<rparr>)
          else s
      | PlayEnds_seq f e fs \<Rightarrow> if f \<in> set (aplays s) then played_seq f e fs s else s
      | SyncSettles_seq f now attempts \<Rightarrow>
          if f \<in> set (scps s) then synced_seq f now attempts s else s
      | StraySettles_seq f retryCount now attempts \<Rightarrow>
          if (f, retryCount) \<in> set (strays s) then strayed_seq f retryCount now attempts s
          else s
      | TimerFires_seq h \<Rightarrow> if h \<in> set (timers s) then idleTimeout h s else s
      | Sigint_seq \<Rightarrow> sigint s)"

definition run_seq :: "seq_event list \<Rightarrow> seq" where
  "run_seq evs = foldl step_seq init_seq evs"

section \<open>sync_and_play.js: the polling coordinator\<close>

text \<open>
  \<open>getWavFiles\<close> on the result of \<open>fs.readdirSync(LOCAL_DIR)\<close> (\<open>None\<close> when it throws):
  the names ending in \<open>.wav\<close>, sorted.
\<close>

definition getWavFiles :: "string list option \<Rightarrow> string list \<times> line list" where
  "getWavFiles dir =
     (case dir of
        None \<Rightarrow> ([], [ReaddirError])
      | Some names \<Rightarrow> (sort (filter (\<lambda>file. endsWith file ''.wav'') names), []))"

definition isConnectionError_rsync :: "int \<Rightarrow> string \<Rightarrow> bool" where
  "isConnectionError_rsync code stderr =
     (str_includes stderr ''Connection refused'' \<or>
      str_includes stderr ''Connection timed out'' \<or>
      str_includes stderr ''Network is unreachable'' \<or>
      code = 255)"

text \<open>
  \<open>syncFiles\<close> (the same text in sync_and_play.js and in part_000), the handlers of the
  end of \<open>rsync\<close>: whether the promise resolves, what is printed until it settles, and
  what is printed after that. When \<open>rsync\<close> cannot be started the \<open>error\<close> handler prints
  and rejects; the \<open>close\<close> handler then prints its warning for the code \<open>-2\<close>, and its
  \<open>resolve\<close> has no effect.
\<close>

definition syncFiles_end :: "rsync_end \<Rightarrow> bool \<times> line list \<times> line list" where
  "syncFiles_end e =
     (case e of
        RsyncClose code stderr \<Rightarrow>
          if code = 0 then (True, [], [])
          else if isConnectionError_rsync code stderr then (True, [SyncConnectionIssue], [])
          else if code = 23 \<or> code = 24 then (True, [], [])
          else (True, [SyncWarning code], [])
      | RsyncError \<Rightarrow> (False, [SyncSpawnError], [SyncWarning (- 2)]))"

text \<open>
  \<open>syncFiles\<close> of the first script of part_001 (the one whose \<open>main\<close> aborts at once):
  only the codes 23 and 24 are forgiven, and nothing is printed.
\<close>

definition syncFiles_end_legacy :: "rsync_end \<Rightarrow> bool \<times> line list \<times> line list" where
  "syncFiles_end_legacy e =
     (case e of
        RsyncClose code stderr \<Rightarrow>
          if code = 0 then (True, [], [])
          else if code = 23 \<or> code = 24 then (True, [], [])
          else (False, [], [])
      | RsyncError \<Rightarrow> (False, [], []))"

record poll = runtime +
  lastFileCount :: nat
  rsyncs :: nat

datatype poll_event =
    Tick_poll "string list option"
  | SyncTick_poll
  | RsyncEnds_poll rsync_end
  | PlayEnds_poll string aplay_end
  | TimerFires_poll nat
  | Sigint_poll

text \<open>
  \<open>main\<close> from the initial sync on: the state in which the two intervals start, or the
  exit with code 1 when the initial \<open>syncFiles\<close> is rejected (the process is gone before
  the \<open>close\<close> event is handled).
\<close>

definition main_poll :: "rsync_end \<Rightarrow> poll" where
  "main_poll e =
     (case syncFiles_end e of
        (True, ls, late) \<Rightarrow>
          \<lparr>playedFiles = {}, isPlaying = False, idleTimer = None, timers = [], timerSeq = 0,
           aplays = [], console = ls @ [InitialSyncComplete] @ late, exitCode = None,
           lastFileCount = 0, rsyncs = 0\<rparr>
      | (False, ls, late) \<Rightarrow>
          \<lparr>playedFiles = {}, isPlaying = False, idleTimer = None, timers = [], timerSeq = 0,
           aplays = [], console = ls @ [InitialSyncFailed], exitCode = Some 1,
           lastFileCount = 0, rsyncs = 0\<rparr>)"

text \<open>\<open>processFiles\<close>, up to its \<open>await\<close>.\<close>

definition processFiles_poll :: "string list option \<Rightarrow> poll \<Rightarrow> poll" where
  "processFiles_poll dir s =
     (let files = fst (getWavFiles dir);
          s0 = say (snd (getWavFiles dir)) s;
          unplayedFiles = filter (\<lambda>file. file \<notin> playedFiles s0) files;
          currentFileCount = length files;
          s1 = (if currentFileCount \<noteq> lastFileCount s0
                then clearIdleTimer (s0\<lparr>lastFileCount := currentFileCount\<rparr>) else s0)
      in if unplayedFiles = [] \<and> \<not> isPlaying s1 then
           (if idleTimer s1 = None then setIdleTimer s1 else s1)
         else if unplayedFiles \<noteq> [] \<and> \<not> isPlaying s1 then
           (let nextFile = hd unplayedFiles in
            playFile_start nextFile (s1\<lparr>isPlaying := True\<rparr>))
         else s1)"

text \<open>
  The callback of \<open>syncInterval\<close> starts an \<open>rsync\<close>; when it ends, a rejected promise is
  only printed.
\<close>

definition rsync_ended :: "rsync_end \<Rightarrow> poll \<Rightarrow> poll" where
  "rsync_ended e s =
     (case syncFiles_end e of
        (True, ls, late) \<Rightarrow> s\<lparr>rsyncs := rsyncs s - 1, console := console s @ ls @ late\<rparr>
      | (False, ls, late) \<Rightarrow>
          s\<lparr>rsyncs := rsyncs s - 1,
            console := console s @ ls @ [SyncCriticalError] @ late\<rparr>)"

definition step_poll :: "poll \<Rightarrow> poll_event \<Rightarrow> poll" where
  "step_poll s ev =
     (if exitCode s \<noteq> None then s
      else case ev of
        Tick_poll dir \<Rightarrow> processFiles_poll dir s
      | SyncTick_poll \<Rightarrow> s\<lparr>rsyncs := Suc (rsyncs s)\<rparr>
      | RsyncEnds_poll e \<Rightarrow> if 0 < rsyncs s then rsync_ended e s else s
      | PlayEnds_poll f e \<Rightarrow> if f \<in> set (aplays s) then played f e s else s
      | TimerFires_poll h \<Rightarrow> if h \<in> set (timers s) then idleTimeout h s else s
      | Sigint_poll \<Rightarrow> sigint s)"

definition run_poll :: "rsync_end \<Rightarrow> poll_event list \<Rightarrow> poll" where
  "run_poll e evs = foldl step_poll (main_poll e) evs"

section \<open>part_000: the hybrid script, where it uses the idle timer\<close>






section \<open>Unfolding the coordinators\<close>

lemmas runtime_defs =
  say_def setIdleTimer_def clearTimeout_def clearIdleTimer_def playFile_start_def
  playFile_end_def played_def idleTimeout_def sigint_def

lemma shift_simps: "shift [] = (None, [])" "shift (x # xs) = (Some x, xs)"
  by (simp_all add: shift_def)

lemma shift_hd_tl: "q \<noteq> [] \<Longrightarrow> shift q = (Some (hd q), tl q)"
  by (cases q) (simp_all add: shift_def)

lemmas nats_defs =
  step_nats_def onMessage_nats_def processQueue_nats_def synced_nats_def syncFile_start_def
  syncFile_end_nats_def shiftQueue_def shift_hd_tl

lemmas seq_defs =
  step_seq_def onMessage_seq_def processQueue_seq_def synced_seq_def played_seq_def
  strayed_seq_def left_behind_def syncFile_start_def shiftQueue_def shift_hd_tl

lemmas syncFile_defs =
  delayNeeded_def closedAt_def retryDelay_def retryAt_def pending_def resolved_def
  rejected_def retried_def spawn_failed_def isConnectionError_seq_def SYNC_DELAY_def
  MAX_SYNC_RETRIES_def RETRY_DELAY_def

lemmas poll_defs =
  step_poll_def processFiles_poll_def rsync_ended_def syncFiles_end_def getWavFiles_def


lemma queued_of_append: "queued_of (xs @ ys) = queued_of xs @ queued_of ys"
  by (induction xs rule: queued_of.induct) auto

lemma playing_of_append: "playing_of (xs @ ys) = playing_of xs @ playing_of ys"
  by (induction xs rule: playing_of.induct) auto


lemma hd_filter_in:
  "filter P xs \<noteq> [] \<Longrightarrow> P (hd (filter P xs)) \<and> hd (filter P xs) \<in> set xs"
  using hd_in_set [of "filter P xs"] by auto

lemma run_nats_snoc: "run_nats (evs @ [ev]) = step_nats (run_nats evs) ev"
  by (simp add: run_nats_def)

lemma run_seq_snoc: "run_seq (evs @ [ev]) = step_seq (run_seq evs) ev"
  by (simp add: run_seq_def)

section \<open>Playback order\<close>

lemma fifo_step_nats:
  assumes "playing_of (console s) @ playQueue s = queued_of (console s)"
  shows "playing_of (console (step_nats s ev)) @ playQueue (step_nats s ev) =
         queued_of (console (step_nats s ev))"
  using assms
  by (cases ev)
     (auto simp: nats_defs runtime_defs Let_def queued_of_append playing_of_append
           split: message.splits field.splits option.splits aplay_end.splits scp_end.splits
                  if_splits)

lemma fifo_run_nats:
  "playing_of (console (run_nats evs)) @ playQueue (run_nats evs) =
   queued_of (console (run_nats evs))"
proof (induction evs rule: rev_induct)
  case Nil
  show ?case by (simp add: run_nats_def init_nats_def)
next
  case (snoc ev evs)
  then show ?case by (simp add: run_nats_snoc fifo_step_nats)
qed

text \<open>
  Claim C1. In sync_and_play_nats.js, whatever the events (messages, ticks, ends of
  transfers and of playbacks, in any interleaving), the files whose playback has been
  started, followed by the files still queued, are the files that were added to the
  queue, in the order in which they were added: playback follows the order of queueing.
  A name is added only by the message that carries it, at the moment the message is
  handled, so the order of queueing is the order of receipt; the end of a transfer
  changes neither the queue nor what has been played. In particular, when
  \<open>seg_002.wav\<close> is announced before \<open>seg_001.wav\<close> and both are present, \<open>seg_002.wav\<close>
  is played first.
\<close>

theorem playback_follows_queueing_order:
  "playing_of (console (run_nats evs)) @ playQueue (run_nats evs) =
     queued_of (console (run_nats evs))
   \<and> (queued_of (console (step_nats s ev)) = queued_of (console s)
      \<or> (\<exists>g fs. ev = Message (Parsed (Str g)) fs
                 \<and> queued_of (console (step_nats s ev)) = queued_of (console s) @ [g]
                 \<and> playQueue (step_nats s ev) = playQueue s @ [g]))
   \<and> playQueue (step_nats s (SyncEnds f e)) = playQueue s
   \<and> playing_of (console (step_nats s (SyncEnds f e))) = playing_of (console s)
   \<and> playing_of (console (run_nats
        [Message (Parsed (Str ''seg_002.wav'')) {''seg_001.wav'', ''seg_002.wav''},
         Message (Parsed (Str ''seg_001.wav'')) {''seg_001.wav'', ''seg_002.wav''},
         Tick {''seg_001.wav'', ''seg_002.wav''},
         PlayEnds ''seg_002.wav'' (AplayClose 0),
         Tick {''seg_001.wav'', ''seg_002.wav''}])) = [''seg_002.wav'', ''seg_001.wav'']"
proof (intro conjI)
  show "playing_of (console (run_nats evs)) @ playQueue (run_nats evs) =
        queued_of (console (run_nats evs))"
    by (rule fifo_run_nats)
  show "queued_of (console (step_nats s ev)) = queued_of (console s)
      \<or> (\<exists>g fs. ev = Message (Parsed (Str g)) fs
                 \<and> queued_of (console (step_nats s ev)) = queued_of (console s) @ [g]
                 \<and> playQueue (step_nats s ev) = playQueue s @ [g])"
    by (cases ev)
       (auto simp: nats_defs runtime_defs Let_def queued_of_append
             split: message.splits field.splits option.splits aplay_end.splits
                    scp_end.splits)
  show "playQueue (step_nats s (SyncEnds f e)) = playQueue s"
    by (simp add: nats_defs split: scp_end.splits)
  show "playing_of (console (step_nats s (SyncEnds f e))) = playing_of (console s)"
    by (simp add: nats_defs playing_of_append split: scp_end.splits)
  show "playing_of (console (run_nats
        [Message (Parsed (Str ''seg_002.wav'')) {''seg_001.wav'', ''seg_002.wav''},
         Message (Parsed (Str ''seg_001.wav'')) {''seg_001.wav'', ''seg_002.wav''},
         Tick {''seg_001.wav'', ''seg_002.wav''},
         PlayEnds ''seg_002.wav'' (AplayClose 0),
         Tick {''seg_001.wav'', ''seg_002.wav''}])) = [''seg_002.wav'', ''seg_001.wav'']"
    by (simp add: run_nats_def init_nats_def nats_defs runtime_defs endsWith_def Let_def)
qed

section \<open>Duplicate arrivals\<close>

text \<open>
  What the two checks of the message handler do give: a name that is in the queue or
  in the played set is not queued again, and the played set only grows.
\<close>

lemma known_name_not_queued_again:
  "f \<in> playedFiles s \<or> f \<in> set (playQueue s) \<Longrightarrow>
   playQueue (step_nats s (Message (Parsed (Str f)) fs)) = playQueue s"
  by (auto simp: nats_defs runtime_defs)

lemma playedFiles_grows: "playedFiles s \<subseteq> playedFiles (step_nats s ev)"
  by (cases ev)
     (auto simp: nats_defs runtime_defs Let_def
           split: message.splits field.splits option.splits aplay_end.splits scp_end.splits)

lemma announced_twice_in_a_row:
  "playQueue (run_nats [Message (Parsed (Str ''seg_001.wav'')) fs,
                        Message (Parsed (Str ''seg_001.wav'')) fs']) = [''seg_001.wav'']"
  by (simp add: run_nats_def init_nats_def nats_defs runtime_defs endsWith_def Let_def)

text \<open>
  The polling script, whose \<open>isPlaying\<close> covers the time between the start of a playback
  and the entry into \<open>playedFiles\<close>, plays no file twice.
\<close>

lemma plays_once_step_poll:
  assumes "distinct (playing_of (console s))"
      and "set (playing_of (console s)) = playedFiles s \<union> set (aplays s)"
      and "if isPlaying s then \<exists>f. aplays s = [f] \<and> f \<notin> playedFiles s else aplays s = []"
  shows "distinct (playing_of (console (step_poll s ev)))
         \<and> set (playing_of (console (step_poll s ev)))
             = playedFiles (step_poll s ev) \<union> set (aplays (step_poll s ev))
         \<and> (if isPlaying (step_poll s ev)
             then \<exists>f. aplays (step_poll s ev) = [f] \<and> f \<notin> playedFiles (step_poll s ev)
             else aplays (step_poll s ev) = [])"
proof (cases "exitCode s = None")
  case False
  with assms show ?thesis by (simp add: step_poll_def)
next
  case running: True
  show ?thesis
  proof (cases ev)
    case (Tick_poll dir)
    define files where "files = fst (getWavFiles dir)"
    define s0 where "s0 = say (snd (getWavFiles dir)) s"
    define s1 where "s1 = (if length files \<noteq> lastFileCount s0
                then clearIdleTimer (s0\<lparr>lastFileCount := length files\<rparr>) else s0)"
    let ?un = "filter (\<lambda>file. file \<notin> playedFiles s0) files"
    have quiet: "playing_of (snd (getWavFiles dir)) = []"
      by (simp add: getWavFiles_def split: option.splits)
    have s1: "playing_of (console s1) = playing_of (console s)" "playedFiles s1 = playedFiles s"
      "aplays s1 = aplays s" "isPlaying s1 = isPlaying s" "playedFiles s0 = playedFiles s"
      by (auto simp: s1_def s0_def say_def clearIdleTimer_def clearTimeout_def
            playing_of_append quiet split: option.splits)
    have step: "step_poll s ev =
        (if ?un = [] \<and> \<not> isPlaying s1 then (if idleTimer s1 = None then setIdleTimer s1 else s1)
         else if ?un \<noteq> [] \<and> \<not> isPlaying s1
              then playFile_start (hd ?un) (s1\<lparr>isPlaying := True\<rparr>)
         else s1)"
      using running Tick_poll
      by (simp add: step_poll_def processFiles_poll_def Let_def s1_def s0_def files_def)
    have fresh: "?un \<noteq> [] \<Longrightarrow> hd ?un \<notin> playedFiles s"
      using hd_filter_in [of "\<lambda>file. file \<notin> playedFiles s0" files] s1(5) by auto
    show ?thesis
    proof (cases "isPlaying s")
      case True
      with step s1 have "step_poll s ev = s1" by simp
      with assms s1 show ?thesis by simp
    next
      case idle: False
      with assms have none: "aplays s = []" by simp
      show ?thesis
      proof (cases "?un = []")
        case True
        with step s1 idle have
          "step_poll s ev = (if idleTimer s1 = None then setIdleTimer s1 else s1)" by simp
        with assms s1 show ?thesis by (simp add: setIdleTimer_def)
      next
        case False
        define g where "g = hd ?un"
        from False step s1 idle have
          "step_poll s ev = playFile_start g (s1\<lparr>isPlaying := True\<rparr>)" by (simp add: g_def)
        moreover from False fresh have "g \<notin> playedFiles s" by (simp add: g_def)
        ultimately show ?thesis
          using assms s1 none by (simp add: playFile_start_def playing_of_append)
      qed
    qed
  next
    case SyncTick_poll
    with running assms show ?thesis by (simp add: step_poll_def)
  next
    case (RsyncEnds_poll e)
    obtain ok ls late where e: "syncFiles_end e = (ok, ls, late)"
      by (cases "syncFiles_end e")
    then have ls: "playing_of ls = []" "playing_of late = []"
      by (auto simp: syncFiles_end_def split: rsync_end.splits if_splits)
    from running assms RsyncEnds_poll e ls show ?thesis
      by (cases ok) (simp_all add: step_poll_def rsync_ended_def playing_of_append)
  next
    case (PlayEnds_poll f e)
    show ?thesis
    proof (cases "f \<in> set (aplays s)")
      case True
      with assms have one: "aplays s = [f]" "f \<notin> playedFiles s" "isPlaying s"
        by (auto split: if_splits)
      obtain ok ls late where e: "playFile_end f e = (ok, ls, late)"
        by (cases "playFile_end f e")
      then have ls: "playing_of ls = []" "playing_of late = []"
        by (auto simp: playFile_end_def split: aplay_end.splits if_splits)
      from running PlayEnds_poll True assms one e ls show ?thesis
        by (cases ok) (simp_all add: step_poll_def played_def playing_of_append)
    next
      case False
      with running assms PlayEnds_poll show ?thesis by (simp add: step_poll_def)
    qed
  next
    case (TimerFires_poll h)
    with running assms show ?thesis
      by (auto simp: step_poll_def idleTimeout_def playing_of_append)
  next
    case Sigint_poll
    with running assms show ?thesis
      by (auto simp: step_poll_def sigint_def say_def clearTimeout_def playing_of_append
               split: option.splits)
  qed
qed

lemma plays_once_run_poll:
  "distinct (playing_of (console (run_poll e evs)))
   \<and> set (playing_of (console (run_poll e evs)))
       = playedFiles (run_poll e evs) \<union> set (aplays (run_poll e evs))
   \<and> (if isPlaying (run_poll e evs)
       then \<exists>f. aplays (run_poll e evs) = [f] \<and> f \<notin> playedFiles (run_poll e evs)
       else aplays (run_poll e evs) = [])"
proof (induction evs rule: rev_induct)
  case Nil
  show ?case
    by (auto simp: run_poll_def main_poll_def syncFiles_end_def playing_of_append
             split: rsync_end.splits)
next
  case (snoc ev evs)
  have "run_poll e (evs @ [ev]) = step_poll (run_poll e evs) ev"
    by (simp add: run_poll_def)
  with snoc plays_once_step_poll [of "run_poll e evs" ev] show ?case by simp
qed

lemma plays_once_poll: "distinct (playing_of (console (run_poll e evs)))"
  using plays_once_run_poll [of e evs] by simp

text \<open>
  Claim C2, evaluated where it fails. While \<open>seg_001.wav\<close> is being played it is neither
  in \<open>playQueue\<close> (it was shifted out when playback started) nor in \<open>playedFiles\<close> (it is
  added when playback ends), so a second announcement of the same name during its
  playback is queued a second time, and the file is played twice. The message handler
  of the sequential coordinator has the same two checks and the same gap.
\<close>

theorem announced_again_during_playback:
  "(let s = run_nats
        [Message (Parsed (Str ''seg_001.wav'')) {''seg_001.wav''},
         Tick {''seg_001.wav''},
         Message (Parsed (Str ''seg_001.wav'')) {''seg_001.wav''}]
    in aplays s = [''seg_001.wav'']
       \<and> playQueue s = [''seg_001.wav'']
       \<and> queued_of (console s) = [''seg_001.wav'', ''seg_001.wav''])
   \<and> playing_of (console (run_nats
        [Message (Parsed (Str ''seg_001.wav'')) {''seg_001.wav''},
         Tick {''seg_001.wav''},
         Message (Parsed (Str ''seg_001.wav'')) {''seg_001.wav''},
         PlayEnds ''seg_001.wav'' (AplayClose 0),
         Tick {''seg_001.wav''}])) = [''seg_001.wav'', ''seg_001.wav'']
   \<and> (let t = run_seq
          [Message_seq (Parsed (Str ''seg_001.wav'')),
           Immediate_seq {''seg_001.wav''},
           Message_seq (Parsed (Str ''seg_001.wav''))]
       in aplays t = [''seg_001.wav'']
          \<and> playQueue t = [''seg_001.wav'']
          \<and> queued_of (console t) = [''seg_001.wav'', ''seg_001.wav''])"
  by (simp add: run_nats_def init_nats_def nats_defs run_seq_def init_seq_def seq_defs
        runtime_defs endsWith_def Let_def)

section \<open>Messages that are ignored\<close>

text \<open>
  Claim C9. In sync_and_play_nats.js a message without a \<open>filename\<close>, or whose
  \<open>filename\<close> is not a string ending in \<open>.wav\<close>, changes nothing but the console:
  the queue, the played set, the playing flag, the idle timer and the pending timeouts,
  and the running children are as before.
\<close>

theorem ignored_message_changes_nothing:
  assumes "\<And>f. m = Parsed (Str f) \<Longrightarrow> \<not> endsWith f ''.wav''"
  shows "step_nats s (Message m fs) = s\<lparr>console := console (step_nats s (Message m fs))\<rparr>"
  using assms
  by (auto simp: nats_defs runtime_defs split: message.splits field.splits)

theorem ignored_message_changes_nothing_witness:
  "(let s = run_nats [Tick {}];
        s1 = step_nats s (Message (Parsed Missing) {});
        s2 = step_nats s (Message (Parsed (Str ''notes.txt'')) {})
    in \<not> endsWith ''notes.txt'' ''.wav''
       \<and> idleTimer s = Some 0
       \<and> s1 = s\<lparr>console := console s1\<rparr> \<and> s2 = s\<lparr>console := console s2\<rparr>
       \<and> idleTimer s2 = Some 0 \<and> playQueue s2 = [] \<and> playedFiles s2 = {})"
proof -
  have a: "\<And>f. Parsed Missing = Parsed (Str f) \<Longrightarrow> \<not> endsWith f ''.wav''" by simp
  have b: "\<And>f. Parsed (Str ''notes.txt'') = Parsed (Str f) \<Longrightarrow> \<not> endsWith f ''.wav''"
    by (simp add: endsWith_def)
  show ?thesis
    using ignored_message_changes_nothing
            [where m = "Parsed Missing" and s = "run_nats [Tick {}]" and fs = "{}", OF a]
          ignored_message_changes_nothing
            [where m = "Parsed (Str ''notes.txt'')" and s = "run_nats [Tick {}]" and fs = "{}",
             OF b]
    by (simp add: Let_def endsWith_def run_nats_def init_nats_def nats_defs runtime_defs)
qed



section \<open>Removing the head of the queue\<close>

lemma shifted_step_nats:
  "(shifted (step_nats s ev) = shifted s
      \<and> (playQueue (step_nats s ev) = playQueue s
         \<or> (\<exists>g. playQueue (step_nats s ev) = playQueue s @ [g])))
   \<or> (\<exists>f rest fs. ev = Tick fs \<and> playQueue s = f # rest \<and> f \<in> fs
          \<and> shifted (step_nats s ev) = shifted s @ [Some f]
          \<and> playQueue (step_nats s ev) = rest)"
proof (cases "playQueue s")
  case Nil
  then show ?thesis
    by (cases ev)
       (auto simp: nats_defs runtime_defs Let_def
             split: message.splits field.splits option.splits aplay_end.splits
                    scp_end.splits)
next
  case (Cons f rest)
  then show ?thesis
    by (cases ev)
       (auto simp: nats_defs runtime_defs Let_def
             split: message.splits field.splits option.splits aplay_end.splits
                    scp_end.splits)
qed

lemma shifted_step_seq:
  "(shifted (step_seq t ev) = shifted t
      \<and> (playQueue (step_seq t ev) = playQueue t
         \<or> (\<exists>g. playQueue (step_seq t ev) = playQueue t @ [g])))
   \<or> (\<exists>f rest fs. (ev = Tick_seq fs \<or> ev = Immediate_seq fs)
          \<and> playQueue t = f # rest \<and> f \<in> fs
          \<and> shifted (step_seq t ev) = shifted t @ [Some f]
          \<and> playQueue (step_seq t ev) = rest)"
proof (cases "playQueue t")
  case Nil
  then show ?thesis
    by (cases ev)
       (auto simp: seq_defs runtime_defs Let_def
             split: message.splits field.splits option.splits aplay_end.splits bool.splits)
next
  case (Cons f rest)
  then show ?thesis
    by (cases ev)
       (auto simp: seq_defs runtime_defs Let_def
             split: message.splits field.splits option.splits aplay_end.splits bool.splits)
qed

lemma no_empty_shift_nats: "None \<notin> set (shifted (run_nats evs))"
proof (induction evs rule: rev_induct)
  case Nil
  show ?case by (simp add: run_nats_def init_nats_def)
next
  case (snoc ev evs)
  with shifted_step_nats [of "run_nats evs" ev] show ?case
    by (auto simp: run_nats_snoc)
qed

lemma no_empty_shift_seq: "None \<notin> set (shifted (run_seq evs))"
proof (induction evs rule: rev_induct)
  case Nil
  show ?case by (simp add: run_seq_def init_seq_def)
next
  case (snoc ev evs)
  with shifted_step_seq [of "run_seq evs" ev] show ?case
    by (auto simp: run_seq_snoc)
qed

text \<open>
  Claim C10. In sync_and_play_nats.js and in the sequential coordinator, one turn of the
  event loop either calls no \<open>shift()\<close> and leaves the queue as it is or appends one name
  to it, or it is a run of \<open>processQueue\<close> that finds a file at the head of the queue and
  that file in local storage, and then \<open>shift()\<close> is called once, returns that file, and
  leaves the rest of the queue. So in every run no \<open>shift()\<close> has been called on an empty
  queue (none has returned \<open>undefined\<close>), and a name leaves the queue only while its
  file is present. The end of a transfer, failed or not, calls no \<open>shift()\<close> and leaves
  the queue unchanged.
\<close>

theorem head_removed_only_when_present:
  "((shifted (step_nats s ev) = shifted s
       \<and> (playQueue (step_nats s ev) = playQueue s
          \<or> (\<exists>g. playQueue (step_nats s ev) = playQueue s @ [g])))
     \<or> (\<exists>f rest fs. ev = Tick fs \<and> playQueue s = f # rest \<and> f \<in> fs
            \<and> shifted (step_nats s ev) = shifted s @ [Some f]
            \<and> playQueue (step_nats s ev) = rest))
   \<and> ((shifted (step_seq t ev') = shifted t
       \<and> (playQueue (step_seq t ev') = playQueue t
          \<or> (\<exists>g. playQueue (step_seq t ev') = playQueue t @ [g])))
     \<or> (\<exists>f rest fs. (ev' = Tick_seq fs \<or> ev' = Immediate_seq fs)
            \<and> playQueue t = f # rest \<and> f \<in> fs
            \<and> shifted (step_seq t ev') = shifted t @ [Some f]
            \<and> playQueue (step_seq t ev') = rest))
   \<and> None \<notin> set (shifted (run_nats evs))
   \<and> None \<notin> set (shifted (run_seq evs'))
   \<and> playQueue (step_nats s (SyncEnds f e)) = playQueue s
   \<and> shifted (step_nats s (SyncEnds f e)) = shifted s
   \<and> playQueue (step_seq t (SyncSettles_seq f now attempts)) = playQueue t
   \<and> shifted (step_seq t (SyncSettles_seq f now attempts)) = shifted t"
proof (intro conjI)
  show "(shifted (step_nats s ev) = shifted s
       \<and> (playQueue (step_nats s ev) = playQueue s
          \<or> (\<exists>g. playQueue (step_nats s ev) = playQueue s @ [g])))
     \<or> (\<exists>f rest fs. ev = Tick fs \<and> playQueue s = f # rest \<and> f \<in> fs
            \<and> shifted (step_nats s ev) = shifted s @ [Some f]
            \<and> playQueue (step_nats s ev) = rest)"
    by (rule shifted_step_nats)
  show "(shifted (step_seq t ev') = shifted t
       \<and> (playQueue (step_seq t ev') = playQueue t
          \<or> (\<exists>g. playQueue (step_seq t ev') = playQueue t @ [g])))
     \<or> (\<exists>f rest fs. (ev' = Tick_seq fs \<or> ev' = Immediate_seq fs)
            \<and> playQueue t = f # rest \<and> f \<in> fs
            \<and> shifted (step_seq t ev') = shifted t @ [Some f]
            \<and> playQueue (step_seq t ev') = rest)"
    by (rule shifted_step_seq)
  show "None \<notin> set (shifted (run_nats evs))" by (rule no_empty_shift_nats)
  show "None \<notin> set (shifted (run_seq evs'))" by (rule no_empty_shift_seq)
  show "playQueue (step_nats s (SyncEnds f e)) = playQueue s"
    by (simp add: nats_defs split: scp_end.splits)
  show "shifted (step_nats s (SyncEnds f e)) = shifted s"
    by (simp add: nats_defs split: scp_end.splits)
  show "playQueue (step_seq t (SyncSettles_seq f now attempts)) = playQueue t"
    by (simp add: seq_defs Let_def split: option.splits bool.splits)
  show "shifted (step_seq t (SyncSettles_seq f now attempts)) = shifted t"
    by (simp add: seq_defs Let_def split: option.splits bool.splits)
qed

theorem head_removed_only_when_present_witness:
  "(let s = run_nats [Message (Parsed (Str ''a.wav'')) {}, Message (Parsed (Str ''b.wav'')) {}];
        t = run_seq [Message_seq (Parsed (Str ''a.wav'')), Message_seq (Parsed (Str ''b.wav''))]
    in playQueue s = [''a.wav'', ''b.wav''] \<and> shifted s = []
       \<and> playQueue (step_nats s (Tick {''b.wav''})) = playQueue s
       \<and> shifted (step_nats s (Tick {''b.wav''})) = []
       \<and> playQueue (step_nats s (Tick {''a.wav''})) = [''b.wav'']
       \<and> shifted (step_nats s (Tick {''a.wav''})) = [Some ''a.wav'']
       \<and> playQueue (step_nats s (SyncEnds ''a.wav'' (ScpClose 1 []))) = playQueue s
       \<and> playQueue t = [''a.wav'', ''b.wav'']
       \<and> playQueue (step_seq t (Immediate_seq {''b.wav''})) = playQueue t
       \<and> playQueue (step_seq t (Immediate_seq {''a.wav''})) = [''b.wav'']
       \<and> shifted (step_seq t (Immediate_seq {''a.wav''})) = [Some ''a.wav''])
   \<and> None \<notin> set (shifted (run_nats [Tick {}, Tick {''a.wav''}]))"
  using head_removed_only_when_present
    [of "run_nats [Message (Parsed (Str ''a.wav'')) {}, Message (Parsed (Str ''b.wav'')) {}]"
        "Tick {''a.wav''}"
        "run_seq [Message_seq (Parsed (Str ''a.wav'')), Message_seq (Parsed (Str ''b.wav''))]"
        "Immediate_seq {''a.wav''}" "[Tick {}, Tick {''a.wav''}]" "[]" "''a.wav''" "ScpClose 1 []"
        0 "[]"]
  by (simp add: run_nats_def init_nats_def nats_defs run_seq_def init_seq_def seq_defs
        runtime_defs endsWith_def Let_def isConnectionError_nats_def)

section \<open>One playback at a time\<close>

lemma one_aplay_step_nats:
  assumes "if isPlaying s then \<exists>f. aplays s = [f] else aplays s = []"
  shows "if isPlaying (step_nats s ev) then \<exists>f. aplays (step_nats s ev) = [f]
         else aplays (step_nats s ev) = []"
  using assms
  by (cases ev)
     (auto simp: nats_defs runtime_defs Let_def
           split: message.splits field.splits option.splits aplay_end.splits scp_end.splits
                  if_splits)

lemma one_aplay_run_nats:
  "if isPlaying (run_nats evs) then \<exists>f. aplays (run_nats evs) = [f]
   else aplays (run_nats evs) = []"
proof (induction evs rule: rev_induct)
  case Nil
  show ?case by (simp add: run_nats_def init_nats_def)
next
  case (snoc ev evs)
  then show ?case using one_aplay_step_nats [of "run_nats evs" ev] by (simp add: run_nats_snoc)
qed

text \<open>
  The sequential coordinator does not keep to one transfer either. When \<open>scp\<close> cannot
  be started, the call is rejected by the \<open>close\<close> handler and \<open>isSyncing\<close> is cleared
  while the retry set by the \<open>error\<close> handler is still to come: the next tick starts a
  transfer of the same file beside it.
\<close>

lemma failed_spawn_leaves_retry_behind:
  "(let s = run_seq [Message_seq (Parsed (Str ''a.wav'')),
                     Immediate_seq {},
                     SyncSettles_seq ''a.wav'' 0 [(0, ScpError)]]
    in \<not> isSyncing s \<and> scps s = [] \<and> strays s = [(''a.wav'', 1)]
       \<and> console s = [IncomingData, AddedToQueue ''a.wav'' 1,
                       ScpSpawnRetry ''a.wav'' 1 2000, SyncFailed ''a.wav'']
       \<and> scps (step_seq s (Tick_seq {})) = [''a.wav'']
       \<and> strays (step_seq s (Tick_seq {})) = [(''a.wav'', 1)])"
  by (simp add: run_seq_def init_seq_def seq_defs runtime_defs endsWith_def Let_def
        syncFile_defs)

text \<open>
  Claim C4 as stated fails for transfers: sync_and_play_nats.js starts an \<open>scp\<close> for
  every accepted message whose file is absent, so two messages give two transfers in
  flight at once; and sync_and_play.js starts an \<open>rsync\<close> at every firing of its sync
  interval, whether or not the previous one has ended.
\<close>

theorem two_transfers_in_flight:
  "scps (run_nats [Message (Parsed (Str ''seg_001.wav'')) {},
                   Message (Parsed (Str ''seg_002.wav'')) {}])
     = [''seg_001.wav'', ''seg_002.wav'']
   \<and> rsyncs (run_poll (RsyncClose 0 []) [SyncTick_poll, SyncTick_poll]) = 2"
  by (simp add: run_nats_def init_nats_def nats_defs run_poll_def main_poll_def poll_defs
        runtime_defs endsWith_def Let_def)

text \<open>
  Claim C4, amended. At every moment of every run of sync_and_play_nats.js and of
  sync_and_play.js at most one \<open>aplay\<close> is running, and \<open>isPlaying\<close> says whether one is:
  the coordinator never starts a playback while one is outstanding. Nothing of the kind
  holds of transfers, which these two scripts start without looking at the ones in
  flight.
\<close>

theorem one_playback_at_a_time:
  "length (aplays (run_nats evs)) \<le> 1
   \<and> isPlaying (run_nats evs) = (length (aplays (run_nats evs)) = 1)
   \<and> length (aplays (run_poll e evs')) \<le> 1
   \<and> isPlaying (run_poll e evs') = (length (aplays (run_poll e evs')) = 1)"
  using one_aplay_run_nats [of evs] plays_once_run_poll [of e evs']
  by (auto split: if_splits)

section \<open>The idle timer\<close>











section \<open>A playback that fails\<close>

text \<open>
  Claim C6. In sync_and_play_nats.js the file at the head leaves the queue when its
  playback starts. When the playback ends, with a failure as with a success, the file
  is added to the played set and \<open>isPlaying\<close> is cleared, and the state is the one a
  success gives but for the console; the next tick then plays the next file of the queue
  when it is present. In sync_and_play.js the end of a playback, failed or not, adds
  the file to the played set and clears \<open>isPlaying\<close> likewise; the next tick never
  plays that file again, and it starts a playback when the directory holds a
  \<open>.wav\<close> file not yet played.
\<close>

theorem failed_playback_is_done:
  assumes "exitCode s = None" and "f \<in> set (aplays s)"
      and "exitCode p = None" and "f \<in> set (aplays p)"
  shows "(exitCode q = None \<and> \<not> isPlaying q \<and> playQueue q = f # rest \<and> f \<in> fs \<longrightarrow>
            playQueue (step_nats q (Tick fs)) = rest
            \<and> aplays (step_nats q (Tick fs)) = aplays q @ [f])
         \<and> f \<in> playedFiles (step_nats s (PlayEnds f e))
         \<and> \<not> isPlaying (step_nats s (PlayEnds f e))
         \<and> playQueue (step_nats s (PlayEnds f e)) = playQueue s
         \<and> step_nats s (PlayEnds f e) =
             (step_nats s (PlayEnds f (AplayClose 0)))
               \<lparr>console := console (step_nats s (PlayEnds f e))\<rparr>
         \<and> (playQueue s = g # rest' \<and> g \<in> fs' \<longrightarrow>
              playQueue (step_nats (step_nats s (PlayEnds f e)) (Tick fs')) = rest'
              \<and> aplays (step_nats (step_nats s (PlayEnds f e)) (Tick fs'))
                  = remove1 f (aplays s) @ [g])
         \<and> f \<in> playedFiles (step_poll p (PlayEnds_poll f e))
         \<and> \<not> isPlaying (step_poll p (PlayEnds_poll f e))
         \<and> step_poll p (PlayEnds_poll f e) =
             (step_poll p (PlayEnds_poll f (AplayClose 0)))
               \<lparr>console := console (step_poll p (PlayEnds_poll f e))\<rparr>
         \<and> (aplays (step_poll (step_poll p (PlayEnds_poll f e)) (Tick_poll dir))
               = remove1 f (aplays p)
            \<or> (\<exists>h. h \<noteq> f \<and> aplays (step_poll (step_poll p (PlayEnds_poll f e)) (Tick_poll dir))
                               = remove1 f (aplays p) @ [h]))
         \<and> (h \<in> set names \<and> endsWith h ''.wav''
              \<and> h \<notin> playedFiles (step_poll p (PlayEnds_poll f e)) \<longrightarrow>
              length (aplays (step_poll (step_poll p (PlayEnds_poll f e))
                                        (Tick_poll (Some names))))
                = Suc (length (remove1 f (aplays p))))"
proof (intro conjI)
  show "exitCode q = None \<and> \<not> isPlaying q \<and> playQueue q = f # rest \<and> f \<in> fs \<longrightarrow>
            playQueue (step_nats q (Tick fs)) = rest
            \<and> aplays (step_nats q (Tick fs)) = aplays q @ [f]"
    by (auto simp: nats_defs runtime_defs Let_def)
  show "f \<in> playedFiles (step_nats s (PlayEnds f e))"
    using assms by (auto simp: nats_defs runtime_defs split: aplay_end.splits)
  show "\<not> isPlaying (step_nats s (PlayEnds f e))"
    using assms by (auto simp: nats_defs runtime_defs split: aplay_end.splits)
  show "playQueue (step_nats s (PlayEnds f e)) = playQueue s"
    using assms by (auto simp: nats_defs runtime_defs split: aplay_end.splits)
  show "step_nats s (PlayEnds f e) =
             (step_nats s (PlayEnds f (AplayClose 0)))
               \<lparr>console := console (step_nats s (PlayEnds f e))\<rparr>"
    using assms by (auto simp: nats_defs runtime_defs split: aplay_end.splits)
  show "playQueue s = g # rest' \<and> g \<in> fs' \<longrightarrow>
              playQueue (step_nats (step_nats s (PlayEnds f e)) (Tick fs')) = rest'
              \<and> aplays (step_nats (step_nats s (PlayEnds f e)) (Tick fs'))
                  = remove1 f (aplays s) @ [g]"
    using assms by (auto simp: nats_defs runtime_defs Let_def split: aplay_end.splits)
  show "f \<in> playedFiles (step_poll p (PlayEnds_poll f e))"
    using assms by (auto simp: poll_defs runtime_defs split: aplay_end.splits)
  show "\<not> isPlaying (step_poll p (PlayEnds_poll f e))"
    using assms by (auto simp: poll_defs runtime_defs split: aplay_end.splits)
  show "step_poll p (PlayEnds_poll f e) =
             (step_poll p (PlayEnds_poll f (AplayClose 0)))
               \<lparr>console := console (step_poll p (PlayEnds_poll f e))\<rparr>"
    using assms by (auto simp: poll_defs runtime_defs split: aplay_end.splits)
  have after: "step_poll p (PlayEnds_poll f e) = played f e p"
    using assms by (simp add: step_poll_def)
  have pl: "playedFiles (played f e p) = insert f (playedFiles p)"
           "aplays (played f e p) = remove1 f (aplays p)"
           "\<not> isPlaying (played f e p)" "exitCode (played f e p) = None"
    using assms by (auto simp: runtime_defs split: aplay_end.splits)
  show "aplays (step_poll (step_poll p (PlayEnds_poll f e)) (Tick_poll dir))
               = remove1 f (aplays p)
            \<or> (\<exists>h. h \<noteq> f \<and> aplays (step_poll (step_poll p (PlayEnds_poll f e)) (Tick_poll dir))
                               = remove1 f (aplays p) @ [h])"
  proof -
    let ?un = "filter (\<lambda>file. file \<notin> insert f (playedFiles p)) (fst (getWavFiles dir))"
    have "?un \<noteq> [] \<Longrightarrow> hd ?un \<noteq> f"
      using hd_filter_in [of "\<lambda>file. file \<notin> insert f (playedFiles p)" "fst (getWavFiles dir)"]
      by auto
    then show ?thesis
      unfolding after using pl
      by (auto simp: step_poll_def processFiles_poll_def say_def setIdleTimer_def
            clearTimeout_def clearIdleTimer_def playFile_start_def Let_def split: option.splits)
  qed
  show "h \<in> set names \<and> endsWith h ''.wav''
              \<and> h \<notin> playedFiles (step_poll p (PlayEnds_poll f e)) \<longrightarrow>
              length (aplays (step_poll (step_poll p (PlayEnds_poll f e))
                                        (Tick_poll (Some names))))
                = Suc (length (remove1 f (aplays p)))"
  proof
    assume h: "h \<in> set names \<and> endsWith h ''.wav''
              \<and> h \<notin> playedFiles (step_poll p (PlayEnds_poll f e))"
    then have "h \<in> set (filter (\<lambda>file. file \<notin> insert f (playedFiles p))
                 (sort (filter (\<lambda>file. endsWith file ''.wav'') names)))"
      unfolding after using pl by simp
    then have "filter (\<lambda>file. file \<notin> insert f (playedFiles p))
                 (sort (filter (\<lambda>file. endsWith file ''.wav'') names)) \<noteq> []"
      by (metis empty_iff list.set(1))
    then show "length (aplays (step_poll (step_poll p (PlayEnds_poll f e))
                                        (Tick_poll (Some names))))
                = Suc (length (remove1 f (aplays p)))"
      unfolding after using pl
      by (auto simp: step_poll_def processFiles_poll_def getWavFiles_def say_def
            setIdleTimer_def clearTimeout_def clearIdleTimer_def playFile_start_def Let_def
            split: option.splits)
  qed
qed



theorem failed_playback_is_done_witness:
  "(let s = run_nats [Message (Parsed (Str ''a.wav'')) {''a.wav'', ''b.wav''},
                      Message (Parsed (Str ''b.wav'')) {''a.wav'', ''b.wav''},
                      Tick {''a.wav'', ''b.wav''}];
        p = run_poll (RsyncClose 0 []) [Tick_poll (Some [''b.wav'', ''a.wav''])];
        s' = step_nats s (PlayEnds ''a.wav'' AplayError);
        p' = step_poll p (PlayEnds_poll ''a.wav'' AplayError)
    in exitCode s = None \<and> ''a.wav'' \<in> set (aplays s)
       \<and> exitCode p = None \<and> ''a.wav'' \<in> set (aplays p)
       \<and> playQueue s = [''b.wav'']
       \<and> ''a.wav'' \<in> playedFiles s' \<and> \<not> isPlaying s' \<and> playQueue s' = [''b.wav'']
       \<and> aplays (step_nats s' (Tick {''a.wav'', ''b.wav''})) = [''b.wav'']
       \<and> ''a.wav'' \<in> playedFiles p' \<and> \<not> isPlaying p'
       \<and> aplays (step_poll p' (Tick_poll (Some [''b.wav'', ''a.wav'']))) = [''b.wav''])"
  using failed_playback_is_done
    [where s = "run_nats [Message (Parsed (Str ''a.wav'')) {''a.wav'', ''b.wav''},
                          Message (Parsed (Str ''b.wav'')) {''a.wav'', ''b.wav''},
                          Tick {''a.wav'', ''b.wav''}]"
       and p = "run_poll (RsyncClose 0 []) [Tick_poll (Some [''b.wav'', ''a.wav''])]"
       and f = "''a.wav''" and e = AplayError and g = "''b.wav''" and rest' = "[]"
       and fs' = "{''a.wav'', ''b.wav''}" and dir = "Some [''b.wav'', ''a.wav'']"
       and h = "''b.wav''" and names = "[''b.wav'', ''a.wav'']"
       and q = "run_nats [Message (Parsed (Str ''a.wav'')) {''a.wav'', ''b.wav''}]"
       and rest = "[]" and fs = "{''a.wav''}"]
  by (simp add: run_nats_def init_nats_def nats_defs run_poll_def main_poll_def poll_defs
        runtime_defs endsWith_def Let_def)

section \<open>Retries of a transfer\<close>



lemma transientE:
  assumes "transient e"
  obtains code stderr where "e = ScpClose code stderr" "code \<noteq> 0"
    "isConnectionError_seq code stderr"
  using assms by (cases e) (auto simp: transient_def)

lemma transient_retry:
  assumes "transient e" and "k < MAX_SYNC_RETRIES"
  shows "syncFile_seq f k lastSynced now ((d, e) # rest) =
           retried (ScpRetry f (k + 1) (retryDelay k)) k now lastSynced
             (syncFile_seq f (k + 1) lastSynced (retryAt k now lastSynced d) rest)"
  using assms by (auto elim!: transientE)

lemma transient_reject:
  assumes "transient e" and "\<not> k < MAX_SYNC_RETRIES"
  shows "syncFile_seq f k lastSynced now ((d, e) # rest) = rejected now lastSynced d"
  using assms by (auto elim!: transientE)

lemma transient_run:
  assumes "k \<le> MAX_SYNC_RETRIES"
      and "Suc (MAX_SYNC_RETRIES - k) \<le> length attempts"
      and "\<forall>a \<in> set attempts. transient (snd a)"
  shows "settled (syncFile_seq f k lastSynced now attempts) = Some False
         \<and> backoffs (syncFile_seq f k lastSynced now attempts)
             = map (\<lambda>attempt. RETRY_DELAY * 2 ^ attempt) [k..<MAX_SYNC_RETRIES]
         \<and> printed (syncFile_seq f k lastSynced now attempts)
             = map (\<lambda>attempt. ScpRetry f (attempt + 1) (RETRY_DELAY * 2 ^ attempt))
                 [k..<MAX_SYNC_RETRIES]
         \<and> stray (syncFile_seq f k lastSynced now attempts) = None
         \<and> lastSync (syncFile_seq f k lastSynced now attempts) = lastSynced"
  using assms
proof (induction attempts arbitrary: k now)
  case Nil
  then show ?case by simp
next
  case (Cons a attempts)
  obtain d e where a: "a = (d, e)" by (cases a)
  from Cons.prems(3) have e: "transient e" by (simp add: a)
  show ?case
  proof (cases "k < MAX_SYNC_RETRIES")
    case True
    have upt: "[k..<MAX_SYNC_RETRIES] = k # [Suc k..<MAX_SYNC_RETRIES]"
      using True by (rule upt_conv_Cons)
    have "Suc k \<le> MAX_SYNC_RETRIES" using True by simp
    moreover have "Suc (MAX_SYNC_RETRIES - Suc k) \<le> length attempts"
      using Cons.prems(2) True by simp
    moreover have "\<forall>a \<in> set attempts. transient (snd a)"
      using Cons.prems(3) by simp
    ultimately have IH:
      "settled (syncFile_seq f (Suc k) lastSynced (retryAt k now lastSynced d) attempts)
         = Some False
       \<and> backoffs (syncFile_seq f (Suc k) lastSynced (retryAt k now lastSynced d) attempts)
           = map (\<lambda>attempt. RETRY_DELAY * 2 ^ attempt) [Suc k..<MAX_SYNC_RETRIES]
       \<and> printed (syncFile_seq f (Suc k) lastSynced (retryAt k now lastSynced d) attempts)
           = map (\<lambda>attempt. ScpRetry f (attempt + 1) (RETRY_DELAY * 2 ^ attempt))
               [Suc k..<MAX_SYNC_RETRIES]
       \<and> stray (syncFile_seq f (Suc k) lastSynced (retryAt k now lastSynced d) attempts)
           = None
       \<and> lastSync (syncFile_seq f (Suc k) lastSynced (retryAt k now lastSynced d) attempts)
           = lastSynced"
      by (rule Cons.IH)
    show ?thesis
      unfolding a transient_retry [OF e True] upt
      using IH by (simp add: retried_def retryDelay_def)
  next
    case False
    then have "[k..<MAX_SYNC_RETRIES] = []" by simp
    then show ?thesis
      unfolding a transient_reject [OF e False] by (simp add: rejected_def)
  qed
qed

lemma all_transient_rejected:
  assumes "Suc MAX_SYNC_RETRIES \<le> length attempts"
      and "\<forall>a \<in> set attempts. transient (snd a)"
  shows "settled (syncFile_seq f 0 lastSynced now attempts) = Some False"
    and "backoffs (syncFile_seq f 0 lastSynced now attempts)
           = [RETRY_DELAY * 2 ^ 0, RETRY_DELAY * 2 ^ 1, RETRY_DELAY * 2 ^ 2]"
    and "printed (syncFile_seq f 0 lastSynced now attempts)
           = [ScpRetry f 1 (RETRY_DELAY * 2 ^ 0), ScpRetry f 2 (RETRY_DELAY * 2 ^ 1),
              ScpRetry f 3 (RETRY_DELAY * 2 ^ 2)]"
    and "stray (syncFile_seq f 0 lastSynced now attempts) = None"
    and "lastSync (syncFile_seq f 0 lastSynced now attempts) = lastSynced"
proof -
  have upt: "[0..<MAX_SYNC_RETRIES] = [0, 1, 2]"
    by (simp add: MAX_SYNC_RETRIES_def eval_nat_numeral)
  note r = transient_run [of 0 attempts f lastSynced now, unfolded upt]
  show "settled (syncFile_seq f 0 lastSynced now attempts) = Some False"
    using r assms by simp
  show "backoffs (syncFile_seq f 0 lastSynced now attempts)
           = [RETRY_DELAY * 2 ^ 0, RETRY_DELAY * 2 ^ 1, RETRY_DELAY * 2 ^ 2]"
    using r assms by simp
  show "printed (syncFile_seq f 0 lastSynced now attempts)
           = [ScpRetry f 1 (RETRY_DELAY * 2 ^ 0), ScpRetry f 2 (RETRY_DELAY * 2 ^ 1),
              ScpRetry f 3 (RETRY_DELAY * 2 ^ 2)]"
    using r assms by simp
  show "stray (syncFile_seq f 0 lastSynced now attempts) = None"
    using r assms by simp
  show "lastSync (syncFile_seq f 0 lastSynced now attempts) = lastSynced"
    using r assms by simp
qed




text \<open>
  Claim C3 as stated fails. In the sequential coordinator, \<open>seg_001.wav\<close> is absent and
  every \<open>scp\<close> ends with a connection error: after the three retries the call is
  rejected, and \<open>seg_001.wav\<close> is still at the head of the queue, before \<open>seg_002.wav\<close>; it
  is in no set of failed or played files, and the next tick starts its transfer again.
  In sync_and_play_nats.js a failed transfer leaves the queue as it is in the same way.
\<close>

theorem exhausted_retries_keep_head:
  "(let attempts = [(1, ScpClose 255 []), (1, ScpClose 255 []), (1, ScpClose 255 []),
                    (1, ScpClose 255 [])];
        r = syncFile_seq ''seg_001.wav'' 0 0 0 attempts;
        s = run_seq [Message_seq (Parsed (Str ''seg_001.wav'')),
                     Message_seq (Parsed (Str ''seg_002.wav'')),
                     Immediate_seq {},
                     SyncSettles_seq ''seg_001.wav'' 0 attempts]
    in settled r = Some False \<and> length (backoffs r) = MAX_SYNC_RETRIES
       \<and> playQueue s = [''seg_001.wav'', ''seg_002.wav''] \<and> playedFiles s = {}
       \<and> scps s = [] \<and> scps (step_seq s (Tick_seq {})) = [''seg_001.wav''])
   \<and> playQueue (run_nats [Message (Parsed (Str ''seg_001.wav'')) {},
                          Message (Parsed (Str ''seg_002.wav'')) {''seg_002.wav''},
                          SyncEnds ''seg_001.wav'' (ScpClose 255 []),
                          Tick {''seg_002.wav''},
                          SyncEnds ''seg_001.wav'' (ScpClose 255 [])])
       = [''seg_001.wav'', ''seg_002.wav'']"
  by (simp add: run_seq_def init_seq_def seq_defs run_nats_def init_nats_def nats_defs
        runtime_defs endsWith_def Let_def syncFile_defs isConnectionError_nats_def)

text \<open>
  Claim C3, amended. In the sequential coordinator, when every \<open>scp\<close> run of a call of
  \<open>syncFile\<close> ends with a connection error, the call makes its three retries, with the
  delays \<open>RETRY_DELAY * 2 ^ 0\<close>, \<open>RETRY_DELAY * 2 ^ 1\<close> and \<open>RETRY_DELAY * 2 ^ 2\<close>, and is
  rejected at the end of the fourth run. The coordinator then prints the three
  warnings and the failure and clears \<open>isSyncing\<close>, while the queue and the played set
  stay as they are: the file is still at the head, nothing has been shifted out, and the
  next tick that finds it absent, with nothing playing, starts a new transfer of it.
  In sync_and_play_nats.js the end of a transfer changes only the running transfers
  and the console, where a failed one prints its failure.
\<close>

theorem exhausted_retries_leave_queue:
  assumes "exitCode s = None" and "f \<in> set (scps s)"
      and "Suc MAX_SYNC_RETRIES \<le> length attempts"
      and "\<forall>a \<in> set attempts. transient (snd a)"
  shows "settled (syncFile_seq f 0 (lastSyncTime s) now attempts) = Some False
         \<and> backoffs (syncFile_seq f 0 (lastSyncTime s) now attempts)
             = [RETRY_DELAY * 2 ^ 0, RETRY_DELAY * 2 ^ 1, RETRY_DELAY * 2 ^ 2]
         \<and> console (step_seq s (SyncSettles_seq f now attempts))
             = console s @ [ScpRetry f 1 (RETRY_DELAY * 2 ^ 0),
                            ScpRetry f 2 (RETRY_DELAY * 2 ^ 1),
                            ScpRetry f 3 (RETRY_DELAY * 2 ^ 2), SyncFailed f]
         \<and> playQueue (step_seq s (SyncSettles_seq f now attempts)) = playQueue s
         \<and> shifted (step_seq s (SyncSettles_seq f now attempts)) = shifted s
         \<and> playedFiles (step_seq s (SyncSettles_seq f now attempts)) = playedFiles s
         \<and> \<not> isSyncing (step_seq s (SyncSettles_seq f now attempts))
         \<and> scps (step_seq s (SyncSettles_seq f now attempts)) = remove1 f (scps s)
         \<and> (\<not> isPlaying s \<and> playQueue s = g # rest \<and> g \<notin> fs \<longrightarrow>
              playQueue (step_seq (step_seq s (SyncSettles_seq f now attempts)) (Tick_seq fs))
                = g # rest
              \<and> scps (step_seq (step_seq s (SyncSettles_seq f now attempts)) (Tick_seq fs))
                = remove1 f (scps s) @ [g])
         \<and> (exitCode t = None \<and> f \<in> set (scps t) \<longrightarrow>
              step_nats t (SyncEnds f e) =
                t\<lparr>scps := remove1 f (scps t),
                  console := console (step_nats t (SyncEnds f e))\<rparr>
              \<and> (\<not> fst (syncFile_end_nats f e) \<longrightarrow>
                   console (step_nats t (SyncEnds f e))
                     = console t @ snd (syncFile_end_nats f e) @ [SyncFailed f]))"
proof -
  note r = all_transient_rejected [OF assms(3,4), of f "lastSyncTime s" now]
  have step: "step_seq s (SyncSettles_seq f now attempts) =
      s\<lparr>scps := remove1 f (scps s),
        console := console s @ [ScpRetry f 1 (RETRY_DELAY * 2 ^ 0),
                                ScpRetry f 2 (RETRY_DELAY * 2 ^ 1),
                                ScpRetry f 3 (RETRY_DELAY * 2 ^ 2)] @ [SyncFailed f],
        lastSyncTime := lastSyncTime s, isSyncing := False, strays := strays s @ []\<rparr>"
    using assms(1,2) r
    by (simp add: step_seq_def synced_seq_def left_behind_def Let_def)
  show ?thesis
  proof (intro conjI)
    show "settled (syncFile_seq f 0 (lastSyncTime s) now attempts) = Some False" by (rule r(1))
    show "backoffs (syncFile_seq f 0 (lastSyncTime s) now attempts)
             = [RETRY_DELAY * 2 ^ 0, RETRY_DELAY * 2 ^ 1, RETRY_DELAY * 2 ^ 2]" by (rule r(2))
    show "console (step_seq s (SyncSettles_seq f now attempts))
             = console s @ [ScpRetry f 1 (RETRY_DELAY * 2 ^ 0),
                            ScpRetry f 2 (RETRY_DELAY * 2 ^ 1),
                            ScpRetry f 3 (RETRY_DELAY * 2 ^ 2), SyncFailed f]"
      unfolding step by simp
    show "playQueue (step_seq s (SyncSettles_seq f now attempts)) = playQueue s"
      unfolding step by simp
    show "shifted (step_seq s (SyncSettles_seq f now attempts)) = shifted s"
      unfolding step by simp
    show "playedFiles (step_seq s (SyncSettles_seq f now attempts)) = playedFiles s"
      unfolding step by simp
    show "\<not> isSyncing (step_seq s (SyncSettles_seq f now attempts))"
      unfolding step by simp
    show "scps (step_seq s (SyncSettles_seq f now attempts)) = remove1 f (scps s)"
      unfolding step by simp
    show "\<not> isPlaying s \<and> playQueue s = g # rest \<and> g \<notin> fs \<longrightarrow>
              playQueue (step_seq (step_seq s (SyncSettles_seq f now attempts)) (Tick_seq fs))
                = g # rest
              \<and> scps (step_seq (step_seq s (SyncSettles_seq f now attempts)) (Tick_seq fs))
                = remove1 f (scps s) @ [g]"
      unfolding step using assms(1)
      by (simp add: step_seq_def processQueue_seq_def syncFile_start_def Let_def)
    show "exitCode t = None \<and> f \<in> set (scps t) \<longrightarrow>
              step_nats t (SyncEnds f e) =
                t\<lparr>scps := remove1 f (scps t),
                  console := console (step_nats t (SyncEnds f e))\<rparr>
              \<and> (\<not> fst (syncFile_end_nats f e) \<longrightarrow>
                   console (step_nats t (SyncEnds f e))
                     = console t @ snd (syncFile_end_nats f e) @ [SyncFailed f])"
      by (auto simp: step_nats_def synced_nats_def split: prod.splits bool.splits)
  qed
qed

theorem exhausted_retries_leave_queue_witness:
  "(let attempts = [(1, ScpClose 255 []), (1, ScpClose 255 []), (1, ScpClose 255 []),
                    (1, ScpClose 255 [])];
        s = run_seq [Message_seq (Parsed (Str ''seg_001.wav'')),
                     Message_seq (Parsed (Str ''seg_002.wav'')),
                     Immediate_seq {}];
        s' = step_seq s (SyncSettles_seq ''seg_001.wav'' 0 attempts);
        t = run_nats [Message (Parsed (Str ''seg_001.wav'')) {}]
    in exitCode s = None \<and> ''seg_001.wav'' \<in> set (scps s)
       \<and> Suc MAX_SYNC_RETRIES \<le> length attempts
       \<and> (\<forall>a \<in> set attempts. transient (snd a))
       \<and> playQueue s' = [''seg_001.wav'', ''seg_002.wav''] \<and> playedFiles s' = {}
       \<and> \<not> isSyncing s'
       \<and> console s' = console s @ [ScpRetry ''seg_001.wav'' 1 2000,
                                    ScpRetry ''seg_001.wav'' 2 4000,
                                    ScpRetry ''seg_001.wav'' 3 8000,
                                    SyncFailed ''seg_001.wav'']
       \<and> scps (step_seq s' (Tick_seq {})) = [''seg_001.wav'']
       \<and> exitCode t = None \<and> ''seg_001.wav'' \<in> set (scps t)
       \<and> playQueue (step_nats t (SyncEnds ''seg_001.wav'' ScpError)) = [''seg_001.wav''])"
  using exhausted_retries_leave_queue
    [where s = "run_seq [Message_seq (Parsed (Str ''seg_001.wav'')),
                         Message_seq (Parsed (Str ''seg_002.wav'')),
                         Immediate_seq {}]"
       and f = "''seg_001.wav''" and now = 0
       and attempts = "[(1, ScpClose 255 []), (1, ScpClose 255 []), (1, ScpClose 255 []),
                        (1, ScpClose 255 [])]"
       and g = "''seg_001.wav''" and rest = "[''seg_002.wav'']" and fs = "{}"
       and t = "run_nats [Message (Parsed (Str ''seg_001.wav'')) {}]" and e = ScpError]
  by (simp add: run_seq_def init_seq_def seq_defs run_nats_def init_nats_def nats_defs
        runtime_defs endsWith_def Let_def syncFile_defs transient_def
        isConnectionError_nats_def)

section \<open>Partial transfers\<close>

text \<open>
  Claim C8. When \<open>rsync\<close> ends with code 23 or 24, \<open>syncFiles\<close> resolves, in
  sync_and_play.js (and part_000, which has the same text) as in the older script of
  part_001. In sync_and_play.js the initial sync then does not exit, and the end of a
  periodic sync changes nothing but the count of running \<open>rsync\<close> children, which drops
  by one, and the console, where no critical error is printed: no new transfer is
  started and no file is marked. What is played is decided by the directory listing
  of the tick: a tick starts at most one playback, of a file that is in the listing.
\<close>

theorem partial_transfer_is_soft_success:
  assumes "code = 23 \<or> code = 24"
  shows "fst (syncFiles_end (RsyncClose code stderr))
         \<and> fst (syncFiles_end_legacy (RsyncClose code stderr))
         \<and> exitCode (main_poll (RsyncClose code stderr)) = None
         \<and> (exitCode s = None \<and> 0 < rsyncs s \<longrightarrow>
              step_poll s (RsyncEnds_poll (RsyncClose code stderr)) =
                s\<lparr>rsyncs := rsyncs s - 1,
                  console := console (step_poll s (RsyncEnds_poll (RsyncClose code stderr)))\<rparr>
              \<and> SyncCriticalError \<notin>
                  set (drop (length (console s))
                        (console (step_poll s (RsyncEnds_poll (RsyncClose code stderr))))))
         \<and> (aplays (step_poll s (Tick_poll (Some names))) = aplays s
            \<or> (\<exists>g \<in> set names.
                  aplays (step_poll s (Tick_poll (Some names))) = aplays s @ [g]))"
proof (intro conjI)
  show "fst (syncFiles_end (RsyncClose code stderr))"
    using assms by (auto simp: syncFiles_end_def)
  show "fst (syncFiles_end_legacy (RsyncClose code stderr))"
    using assms by (auto simp: syncFiles_end_legacy_def)
  show "exitCode (main_poll (RsyncClose code stderr)) = None"
    using assms by (auto simp: main_poll_def syncFiles_end_def)
  show "exitCode s = None \<and> 0 < rsyncs s \<longrightarrow>
              step_poll s (RsyncEnds_poll (RsyncClose code stderr)) =
                s\<lparr>rsyncs := rsyncs s - 1,
                  console := console (step_poll s (RsyncEnds_poll (RsyncClose code stderr)))\<rparr>
              \<and> SyncCriticalError \<notin>
                  set (drop (length (console s))
                        (console (step_poll s (RsyncEnds_poll (RsyncClose code stderr)))))"
    using assms by (auto simp: poll_defs)
  show "aplays (step_poll s (Tick_poll (Some names))) = aplays s
            \<or> (\<exists>g \<in> set names.
                  aplays (step_poll s (Tick_poll (Some names))) = aplays s @ [g])"
  proof -
    let ?un = "filter (\<lambda>file. file \<notin> playedFiles s)
                 (sort (filter (\<lambda>file. endsWith file ''.wav'') names))"
    have "?un \<noteq> [] \<Longrightarrow> hd ?un \<in> set names"
      using hd_filter_in [of "\<lambda>file. file \<notin> playedFiles s"
                             "sort (filter (\<lambda>file. endsWith file ''.wav'') names)"]
      by auto
    then show ?thesis
      by (auto simp: step_poll_def processFiles_poll_def getWavFiles_def say_def
            setIdleTimer_def clearTimeout_def clearIdleTimer_def playFile_start_def Let_def
            split: option.splits)
  qed
qed

theorem partial_transfer_is_soft_success_witness:
  "((23::int) = 23 \<or> (23::int) = 24)
   \<and> fst (syncFiles_end (RsyncClose 23 ''rsync error: some files could not be transferred''))
   \<and> (let s = run_poll (RsyncClose 23 []) [SyncTick_poll];
          s' = step_poll s (RsyncEnds_poll (RsyncClose 23 []))
      in exitCode s = None \<and> 0 < rsyncs s \<and> rsyncs s' = 0 \<and> playedFiles s' = {}
         \<and> console s' = console s
         \<and> aplays (step_poll s' (Tick_poll (Some [''seg_001.wav'']))) = [''seg_001.wav''])"
  using partial_transfer_is_soft_success
    [where code = 23 and stderr = "''rsync error: some files could not be transferred''"]
    partial_transfer_is_soft_success
    [where code = 23 and stderr = "[]" and s = "run_poll (RsyncClose 23 []) [SyncTick_poll]"
       and names = "[''seg_001.wav'']"]
  by (simp add: run_poll_def main_poll_def poll_defs runtime_defs endsWith_def Let_def
        isConnectionError_rsync_def)


end
